theory Spec2Isabelle
  imports Main "HOL-Library.Word" "HOL-Library.Sublist"
begin

section \<open>JavaScript strings\<close>

text \<open>
  A JavaScript string is a sequence of 16-bit code units. String literals of the route
  handler are ASCII and are written through \<open>js\<close>.
\<close>

type_synonym code_unit = "16 word"
type_synonym jstring = "code_unit list"

definition js :: "string \<Rightarrow> jstring" where
  "js s = map (\<lambda>c. of_nat (of_char c)) s"

text \<open>
  The characters removed by \<open>String.prototype.trim\<close> and matched by \<open>\s\<close> in a regular
  expression: WhiteSpace and LineTerminator of ECMAScript.
\<close>

definition isWhiteSpace :: "code_unit \<Rightarrow> bool" where
  "isWhiteSpace c \<longleftrightarrow>
     c = 0x09 \<or> c = 0x0A \<or> c = 0x0B \<or> c = 0x0C \<or> c = 0x0D \<or> c = 0x20 \<or> c = 0xA0
     \<or> c = 0x1680 \<or> (0x2000 \<le> c \<and> c \<le> 0x200A) \<or> c = 0x2028 \<or> c = 0x2029
     \<or> c = 0x202F \<or> c = 0x205F \<or> c = 0x3000 \<or> c = 0xFEFF"

definition trim :: "jstring \<Rightarrow> jstring" where
  "trim s = rev (dropWhile isWhiteSpace (rev (dropWhile isWhiteSpace s)))"

definition startsWith :: "jstring \<Rightarrow> jstring \<Rightarrow> bool" where
  "startsWith s p \<longleftrightarrow> prefix p s"

fun str_includes :: "jstring \<Rightarrow> jstring \<Rightarrow> bool" where
  "str_includes [] p \<longleftrightarrow> p = []"
| "str_includes (c # cs) p \<longleftrightarrow> prefix p (c # cs) \<or> str_includes cs p"

text \<open>\<open>s.replace(/\n/g, '\n// ')\<close>: every line feed is followed by a comment marker.\<close>

definition comment_lines :: "jstring \<Rightarrow> jstring" where
  "comment_lines s = concat (map (\<lambda>c. if c = 0x0A then 0x0A # js ''// '' else [c]) s)"

subsection \<open>The three regular expressions of the handler\<close>

text \<open>
  \<open>s.replace(/^p\s*/, '')\<close> for a literal \<open>p\<close>: when \<open>s\<close> starts with \<open>p\<close>, the prefix and the
  whole run of white space after it are removed (the star is greedy and nothing follows
  it); otherwise \<open>s\<close> is unchanged.
\<close>

definition remove_opening :: "jstring \<Rightarrow> jstring \<Rightarrow> jstring" where
  "remove_opening p s =
     (if prefix p s then dropWhile isWhiteSpace (drop (length p) s) else s)"

text \<open>
  \<open>s.replace(/\s*```$/, '')\<close>: without the \<open>m\<close> flag \<open>$\<close> is the end of the string, so
  there is a match exactly when \<open>s\<close> ends with three backticks, and the leftmost match
  starts at the beginning of the white space that precedes them.
\<close>

definition remove_closing :: "jstring \<Rightarrow> jstring" where
  "remove_closing s =
     (if suffix (js ''```'') s
      then rev (dropWhile isWhiteSpace (rev (take (length s - 3) s)))
      else s)"

text \<open>
  \<open>s.match(/\{[\s\S]*\}/)\<close>: the leftmost opening brace up to the last closing brace
  after it; \<open>None\<close> is the \<open>null\<close> of a failed match.
\<close>

definition match_braces :: "jstring \<Rightarrow> jstring option" where
  "match_braces s =
     (let t = dropWhile (\<lambda>c. c \<noteq> 0x7B) s;
          u = rev (dropWhile (\<lambda>c. c \<noteq> 0x7D) (rev t))
      in if u = [] then None else Some u)"

section \<open>JavaScript values\<close>

text \<open>
  The values that \<open>JSON.parse\<close> produces, and \<open>undefined\<close>. A number is kept as the exact
  decimal \<open>m * 10 ^ e\<close> that its literal denotes; the rounding to a double is applied
  where the handler observes it, in the truth test. An object keeps its members in
  source order; a later member with the same key overrides an earlier one.
\<close>

datatype val =
    Undefined
  | Null
  | Bool bool
  | Num int int
  | Str jstring
  | Arr "val list"
  | Obj "(jstring \<times> val) list"

text \<open>
  The literal denotes a double that is \<open>+0\<close> or \<open>-0\<close> when its value is at most
  \<open>2 ^ -1075\<close> in magnitude (half of the least subnormal; the tie rounds to even).
\<close>

definition rounds_to_zero :: "int \<Rightarrow> int \<Rightarrow> bool" where
  "rounds_to_zero m e \<longleftrightarrow> m = 0 \<or> (e < 0 \<and> \<bar>m\<bar> * 2 ^ 1075 \<le> 10 ^ nat (- e))"

text \<open>ToBoolean.\<close>

fun truthy :: "val \<Rightarrow> bool" where
  "truthy Undefined = False"
| "truthy Null = False"
| "truthy (Bool b) = b"
| "truthy (Num m e) = (\<not> rounds_to_zero m e)"
| "truthy (Str s) = (s \<noteq> [])"
| "truthy (Arr vs) = True"
| "truthy (Obj kvs) = True"

datatype thrown = Error (message: jstring) | NonError

text \<open>
  Reading a property whose name is none of the built-in ones (the handler reads
  \<open>code\<close>, \<open>language\<close>, \<open>description\<close>, \<open>correctedCode\<close>, \<open>explanation\<close> and
  \<open>issues\<close>): the member of an object, \<open>undefined\<close> on any other value, and a TypeError
  on \<open>null\<close> and \<open>undefined\<close>. The message is the one V8 gives.
\<close>

definition cannot_read :: "val \<Rightarrow> jstring \<Rightarrow> thrown" where
  "cannot_read v k =
     Error (js ''Cannot read properties of ''
            @ (if v = Null then js ''null'' else js ''undefined'')
            @ js '' (reading '' @ [0x27] @ k @ [0x27] @ js '')'')"

definition member :: "val \<Rightarrow> jstring \<Rightarrow> val" where
  "member v k =
     (case v of
        Obj kvs \<Rightarrow> (case map_of (rev kvs) k of None \<Rightarrow> Undefined | Some x \<Rightarrow> x)
      | _ \<Rightarrow> Undefined)"

definition get :: "val \<Rightarrow> jstring \<Rightarrow> thrown + val" where
  "get v k =
     (if v = Null \<or> v = Undefined then Inl (cannot_read v k) else Inr (member v k))"

section \<open>JSON.parse\<close>

text \<open>
  \<open>JSON.parse\<close> of ECMAScript, as a recursive-descent parser over code units. White
  space is tab, line feed, carriage return and space only.
\<close>

definition isJSONWhiteSpace :: "code_unit \<Rightarrow> bool" where
  "isJSONWhiteSpace c \<longleftrightarrow> c = 0x09 \<or> c = 0x0A \<or> c = 0x0D \<or> c = 0x20"

definition skip_ws :: "jstring \<Rightarrow> jstring" where
  "skip_ws s = dropWhile isJSONWhiteSpace s"

text \<open>The next character that is not white space, and what follows it.\<close>

definition token :: "jstring \<Rightarrow> (code_unit \<times> jstring) option" where
  "token s = (case skip_ws s of [] \<Rightarrow> None | c # r \<Rightarrow> Some (c, r))"

subsection \<open>Strings\<close>

definition hexval :: "code_unit \<Rightarrow> nat option" where
  "hexval c =
     (if 0x30 \<le> c \<and> c \<le> 0x39 then Some (unat c - 0x30)
      else if 0x41 \<le> c \<and> c \<le> 0x46 then Some (unat c - 0x41 + 10)
      else if 0x61 \<le> c \<and> c \<le> 0x66 then Some (unat c - 0x61 + 10)
      else None)"

text \<open>The code unit of \<open>\uXXXX\<close>.\<close>

definition hex4 :: "code_unit \<Rightarrow> code_unit \<Rightarrow> code_unit \<Rightarrow> code_unit \<Rightarrow> code_unit option" where
  "hex4 a b c d =
     (case (hexval a, hexval b, hexval c, hexval d) of
        (Some p, Some q, Some r, Some s) \<Rightarrow> Some (of_nat (0x1000 * p + 0x100 * q + 0x10 * r + s))
      | _ \<Rightarrow> None)"

text \<open>The character after a backslash: \<open>" \ / b f n r t\<close>.\<close>

definition escape :: "code_unit \<Rightarrow> code_unit option" where
  "escape e =
     (if e = 0x22 then Some 0x22
      else if e = 0x5C then Some 0x5C
      else if e = 0x2F then Some 0x2F
      else if e = 0x62 then Some 0x08
      else if e = 0x66 then Some 0x0C
      else if e = 0x6E then Some 0x0A
      else if e = 0x72 then Some 0x0D
      else if e = 0x74 then Some 0x09
      else None)"

definition cons_fst :: "code_unit \<Rightarrow> (jstring \<times> jstring) option \<Rightarrow> (jstring \<times> jstring) option" where
  "cons_fst u p = (case p of None \<Rightarrow> None | Some (t, r) \<Rightarrow> Some (u # t, r))"

text \<open>
  The characters of a string after its opening quote, up to the closing quote: the
  string denoted and the rest of the input. A control character below \<open>0x20\<close> is not
  allowed unescaped.
\<close>

fun string_chars :: "jstring \<Rightarrow> (jstring \<times> jstring) option" where
  "string_chars [] = None"
| "string_chars (c # cs) =
     (if c = 0x22 then Some ([], cs)
      else if c = 0x5C then
        (case cs of
           [] \<Rightarrow> None
         | e # es \<Rightarrow>
             if e = 0x75 then
               (case es of
                  h1 # h2 # h3 # h4 # r \<Rightarrow>
                    (case hex4 h1 h2 h3 h4 of
                       None \<Rightarrow> None
                     | Some u \<Rightarrow> cons_fst u (string_chars r))
                | _ \<Rightarrow> None)
             else
               (case escape e of
                  None \<Rightarrow> None
                | Some u \<Rightarrow> cons_fst u (string_chars es)))
      else if c < 0x20 then None
      else cons_fst c (string_chars cs))"

subsection \<open>Numbers\<close>

definition isDigit :: "code_unit \<Rightarrow> bool" where
  "isDigit c \<longleftrightarrow> 0x30 \<le> c \<and> c \<le> 0x39"

definition digits_value :: "jstring \<Rightarrow> int" where
  "digits_value ds = foldl (\<lambda>n c. 10 * n + uint (c - 0x30)) 0 ds"

text \<open>An optional minus sign.\<close>

definition sign_part :: "jstring \<Rightarrow> bool \<times> jstring" where
  "sign_part s =
     (case s of
        [] \<Rightarrow> (False, s)
      | c # r \<Rightarrow> if c = 0x2D then (True, r) else (False, s))"

text \<open>An optional fraction: a point and at least one digit.\<close>

definition fraction_part :: "jstring \<Rightarrow> (jstring \<times> jstring) option" where
  "fraction_part s =
     (case s of
        [] \<Rightarrow> Some ([], s)
      | c # r \<Rightarrow>
          if c = 0x2E
          then (if takeWhile isDigit r = [] then None
                else Some (takeWhile isDigit r, dropWhile isDigit r))
          else Some ([], s))"

text \<open>An optional exponent: \<open>e\<close> or \<open>E\<close>, an optional sign and at least one digit.\<close>

definition exponent_part :: "jstring \<Rightarrow> (int \<times> jstring) option" where
  "exponent_part s =
     (case s of
        [] \<Rightarrow> Some (0, s)
      | c # r \<Rightarrow>
          if c = 0x65 \<or> c = 0x45
          then (let (neg, r1) =
                      (case r of
                         [] \<Rightarrow> (False, r)
                       | d # r' \<Rightarrow> if d = 0x2D then (True, r')
                                  else if d = 0x2B then (False, r')
                                  else (False, r))
                in if takeWhile isDigit r1 = [] then None
                   else Some (if neg then - digits_value (takeWhile isDigit r1)
                              else digits_value (takeWhile isDigit r1),
                              dropWhile isDigit r1))
          else Some (0, s))"

text \<open>
  A number literal: the pair \<open>(m, e)\<close> of its value \<open>m * 10 ^ e\<close> and the rest of the
  input. The integer part is \<open>0\<close> or starts with a digit other than \<open>0\<close>.
\<close>

definition number :: "jstring \<Rightarrow> ((int \<times> int) \<times> jstring) option" where
  "number s =
     (case sign_part s of
        (neg, s1) \<Rightarrow>
          (let ip = takeWhile isDigit s1 in
           if ip = [] then None
           else if hd ip = 0x30 \<and> 1 < length ip then None
           else
             (case fraction_part (dropWhile isDigit s1) of
                None \<Rightarrow> None
              | Some (fp, s3) \<Rightarrow>
                  (case exponent_part s3 of
                     None \<Rightarrow> None
                   | Some (ex, s4) \<Rightarrow>
                       Some ((if neg then - digits_value (ip @ fp) else digits_value (ip @ fp),
                              ex - int (length fp)), s4)))))"

subsection \<open>Values\<close>

text \<open>The name of a member and the colon after it.\<close>

definition member_name :: "jstring \<Rightarrow> (jstring \<times> jstring) option" where
  "member_name s =
     (case token s of
        None \<Rightarrow> None
      | Some (c, r) \<Rightarrow>
          if c = 0x22 then
            (case string_chars r of
               None \<Rightarrow> None
             | Some (k, r1) \<Rightarrow>
                 (case token r1 of
                    None \<Rightarrow> None
                  | Some (c1, r2) \<Rightarrow> if c1 = 0x3A then Some (k, r2) else None))
          else None)"

text \<open>
  The recursion is on a fuel that every call decreases; \<open>JSON_parse\<close> starts with
  more than twice the length of the text, which is never used up (lemma
  \<open>parse_value_fuel\<close> below). \<open>parse_elements\<close> reads the elements of an array after
  its opening bracket or a comma, \<open>parse_members\<close> the members of an object.
\<close>

datatype 'a parsed = Parsed 'a jstring | SyntaxError | OutOfFuel

fun parse_value :: "nat \<Rightarrow> jstring \<Rightarrow> val parsed"
  and parse_elements :: "nat \<Rightarrow> jstring \<Rightarrow> val list \<Rightarrow> val parsed"
  and parse_members :: "nat \<Rightarrow> jstring \<Rightarrow> (jstring \<times> val) list \<Rightarrow> val parsed"
where
  "parse_value 0 s = OutOfFuel"
| "parse_value (Suc n) s =
     (case token s of
        None \<Rightarrow> SyntaxError
      | Some (c, r) \<Rightarrow>
          if c = 0x7B then
            (case token r of
               None \<Rightarrow> SyntaxError
             | Some (d, r') \<Rightarrow> if d = 0x7D then Parsed (Obj []) r' else parse_members n r [])
          else if c = 0x5B then
            (case token r of
               None \<Rightarrow> SyntaxError
             | Some (d, r') \<Rightarrow> if d = 0x5D then Parsed (Arr []) r' else parse_elements n r [])
          else if c = 0x22 then
            (case string_chars r of
               None \<Rightarrow> SyntaxError
             | Some (t, r') \<Rightarrow> Parsed (Str t) r')
          else if prefix (js ''true'') (c # r) then Parsed (Bool True) (drop 4 (c # r))
          else if prefix (js ''false'') (c # r) then Parsed (Bool False) (drop 5 (c # r))
          else if prefix (js ''null'') (c # r) then Parsed Null (drop 4 (c # r))
          else
            (case number (c # r) of
               None \<Rightarrow> SyntaxError
             | Some ((m, e), r') \<Rightarrow> Parsed (Num m e) r'))"
| "parse_elements 0 s acc = OutOfFuel"
| "parse_elements (Suc n) s acc =
     (case parse_value n s of
        Parsed v r \<Rightarrow>
          (case token r of
             None \<Rightarrow> SyntaxError
           | Some (d, r') \<Rightarrow>
               if d = 0x2C then parse_elements n r' (acc @ [v])
               else if d = 0x5D then Parsed (Arr (acc @ [v])) r'
               else SyntaxError)
      | SyntaxError \<Rightarrow> SyntaxError
      | OutOfFuel \<Rightarrow> OutOfFuel)"
| "parse_members 0 s acc = OutOfFuel"
| "parse_members (Suc n) s acc =
     (case member_name s of
        None \<Rightarrow> SyntaxError
      | Some (k, r) \<Rightarrow>
          (case parse_value n r of
             Parsed v r1 \<Rightarrow>
               (case token r1 of
                  None \<Rightarrow> SyntaxError
                | Some (d, r') \<Rightarrow>
                    if d = 0x2C then parse_members n r' (acc @ [(k, v)])
                    else if d = 0x7D then Parsed (Obj (acc @ [(k, v)])) r'
                    else SyntaxError)
           | SyntaxError \<Rightarrow> SyntaxError
           | OutOfFuel \<Rightarrow> OutOfFuel))"

text \<open>
  \<open>JSON.parse(text)\<close>: one value, with nothing but white space after it. \<open>None\<close> is
  the SyntaxError that \<open>JSON.parse\<close> throws.
\<close>

definition JSON_parse :: "jstring \<Rightarrow> val option" where
  "JSON_parse text =
     (case parse_value (2 * length text + 1) text of
        Parsed v r \<Rightarrow> if skip_ws r = [] then Some v else None
      | SyntaxError \<Rightarrow> None
      | OutOfFuel \<Rightarrow> None)"

section \<open>The prompt\<close>

text \<open>\<open>Array.prototype.join\<close> on strings.\<close>

definition join :: "jstring \<Rightarrow> jstring list \<Rightarrow> jstring" where
  "join sep xs = (case xs of [] \<Rightarrow> [] | y # ys \<Rightarrow> y @ concat (map (\<lambda>x. sep @ x) ys))"

text \<open>
  ToString, which a template literal applies to the values it interpolates. The text of
  a number is what \<open>Number.prototype.toString\<close> of the engine gives for it: a parameter,
  applied to the decimal of the number. An array is the join of its elements with
  commas, \<open>null\<close> and \<open>undefined\<close> elements being empty.
\<close>

fun ToString :: "(int \<Rightarrow> int \<Rightarrow> jstring) \<Rightarrow> val \<Rightarrow> jstring" where
  "ToString nts Undefined = js ''undefined''"
| "ToString nts Null = js ''null''"
| "ToString nts (Bool b) = (if b then js ''true'' else js ''false'')"
| "ToString nts (Num m e) = nts m e"
| "ToString nts (Str s) = s"
| "ToString nts (Arr vs) =
     join (js '','') (map (\<lambda>v. if v = Null \<or> v = Undefined then [] else ToString nts v) vs)"
| "ToString nts (Obj kvs) = js ''[object Object]''"

text \<open>Lines 37 to 61: the template literal, line by line.\<close>

definition prompt :: "(int \<Rightarrow> int \<Rightarrow> jstring) \<Rightarrow> jstring \<Rightarrow> val \<Rightarrow> val \<Rightarrow> jstring" where
  \<open>prompt nts code language description =
     join [0x0A]
      [js ''You are an expert '' @ ToString nts language @ js '' developer and code reviewer. Analyze and fix this code. Respond with ONLY valid JSON in this exact format:'',
       [],
       js ''{'',
       js ''  "correctedCode": "the complete fixed code here",'',
       js ''  "explanation": "detailed explanation of what was wrong and what you changed",'',
       js ''  "issues": ["specific issue 1 that was found and fixed", "specific issue 2", "specific issue 3"]'',
       js ''}'',
       [],
       (if truthy description then js ''Context: '' @ ToString nts description else []),
       [],
       js ''Code to analyze and fix:'',
       js ''```'' @ ToString nts language,
       code,
       js ''```'',
       [],
       js ''Focus on:'',
       js ''1. Syntax errors and bugs'',
       js ''2. Logic errors and potential runtime issues'',
       js ''3. Best practices and code quality improvements'',
       js ''4. Performance optimizations'',
       js ''5. Security vulnerabilities'',
       [],
       js ''Provide the corrected code even if no major issues are found - you can still improve formatting, add comments, or optimize the code.'',
       [],
       js ''IMPORTANT: Return ONLY the JSON object, no other text, no markdown formatting, no explanations outside the JSON.'']\<close>

section \<open>Responses\<close>

text \<open>
  The body of a response is a correction with its three fields, or an error message
  with optional details. The fields of a correction are JavaScript values: the
  interface of the source declares a string, a string and an array of strings, and the
  values come from the reply at run time. \<open>NextResponse.json(b)\<close> has status 200
  unless a status is given.
\<close>

record CorrectionResponse =
  correctedCode :: val
  explanation :: val
  issues :: val

datatype body =
    Correction CorrectionResponse
  | Failure (error: jstring) (details: "jstring option")

record response =
  status :: nat
  body :: body

definition json :: "body \<Rightarrow> response" where
  "json b = \<lparr>status = 200, body = b\<rparr>"

definition json_status :: "body \<Rightarrow> nat \<Rightarrow> response" where
  "json_status b n = \<lparr>status = n, body = b\<rparr>"

section \<open>The route handler\<close>

text \<open>
  The result of an awaited call: the value it resolves to, or what it throws.
\<close>

datatype 'a outcome = Resolves 'a | Rejects thrown

text \<open>
  A chat completion is the list of its choices; a choice is the \<open>content\<close> of its
  message, \<open>None\<close> when the message or the content is absent or \<open>null\<close>.
\<close>

type_synonym completion = "jstring option list"

text \<open>\<open>chatCompletion.choices[0]?.message?.content || ''\<close>\<close>

definition content_or_empty :: "completion \<Rightarrow> jstring" where
  "content_or_empty choices =
     (case choices of
        [] \<Rightarrow> []
      | c # _ \<Rightarrow> (case c of None \<Rightarrow> [] | Some t \<Rightarrow> t))"

text \<open>
  What the handler does to the outside, in order: reading the request body and calling
  the completion provider with a prompt (the model and the sampling parameters are
  constants of the call). Console output is not modelled.
\<close>

datatype event = ReadBody | CallProvider jstring

subsection \<open>The catch block\<close>

definition classify :: "thrown \<Rightarrow> response" where
  "classify err =
     (case err of
        Error msg \<Rightarrow>
          if str_includes msg (js ''API key'') \<or> str_includes msg (js ''authentication'')
             \<or> str_includes msg (js ''unauthorized'')
          then json_status
                 (Failure (js ''Invalid Groq API key. Please check your GROQ_API_KEY in environment variables.'') None)
                 401
          else if str_includes msg (js ''rate limit'') \<or> str_includes msg (js ''quota'')
                  \<or> str_includes msg (js ''limit exceeded'')
          then json_status
                 (Failure (js ''Groq API rate limit exceeded. Please try again in a moment.'') None)
                 429
          else if str_includes msg (js ''timeout'') \<or> str_includes msg (js ''network'')
          then json_status
                 (Failure (js ''Network timeout. Please check your connection and try again.'') None)
                 504
          else if str_includes msg (js ''JSON'') \<or> str_includes msg (js ''parse'')
          then json_status
                 (Failure (js ''Groq returned an invalid response format. Please try again.'') None)
                 500
          else json_status
                 (Failure (js ''Failed to analyze code with Groq API. Please try again.'') (Some msg))
                 500
      | NonError \<Rightarrow>
          json_status
            (Failure (js ''Failed to analyze code with Groq API. Please try again.'')
               (Some (js ''Unknown error occurred'')))
            500)"

subsection \<open>Cleaning up and validating the reply\<close>

text \<open>Lines 84 to 97: trimming, removing a markdown fence, keeping the braces.\<close>

definition clean_up :: "jstring \<Rightarrow> jstring" where
  "clean_up responseText =
     (let jsonString = trim responseText;
          jsonString =
            (if startsWith jsonString (js ''```json'')
             then remove_closing (remove_opening (js ''```json'') jsonString)
             else if startsWith jsonString (js ''```'')
             then remove_closing (remove_opening (js ''```'') jsonString)
             else jsonString)
      in case match_braces jsonString of
           Some jsonMatch \<Rightarrow> jsonMatch
         | None \<Rightarrow> jsonString)"

text \<open>Lines 108 to 116: the response when \<open>JSON.parse\<close> throws.\<close>

definition parsing_failed :: "jstring \<Rightarrow> jstring \<Rightarrow> response" where
  "parsing_failed responseText code =
     json (Correction
       \<lparr>correctedCode =
          Str (js ''// Groq response (parsing failed):'' @ [0x0A] @ js ''// ''
               @ comment_lines responseText
               @ [0x0A, 0x0A] @ js ''// Original code:'' @ [0x0A] @ code),
        explanation =
          Str (js ''Groq provided feedback but in an unexpected format. The raw response is shown as comments in the corrected code section above your original code.''),
        issues =
          Arr [Str (js ''JSON parsing failed - Groq returned non-JSON format''),
               Str (js ''Check the raw response in the corrected code section''),
               Str (js ''Try submitting the code again for a properly formatted response'')]\<rparr>)"

text \<open>Lines 122 to 126: the response when \<open>correctedCode\<close> is falsy.\<close>

definition missing_correctedCode :: "jstring \<Rightarrow> response" where
  "missing_correctedCode code =
     json (Correction
       \<lparr>correctedCode = Str code,
        explanation = Str (js ''Groq response was missing the corrected code. Please try again.''),
        issues = Arr [Str (js ''Invalid API response format''), Str (js ''Missing corrected code field'')]\<rparr>)"

definition isArray :: "val \<Rightarrow> bool" where
  "isArray v = (case v of Arr _ \<Rightarrow> True | _ \<Rightarrow> False)"

text \<open>Lines 130 to 134: the validated response, with its defaults.\<close>

definition validatedResponse :: "val \<Rightarrow> val \<Rightarrow> val \<Rightarrow> CorrectionResponse" where
  "validatedResponse c e i =
     \<lparr>correctedCode = c,
      explanation = (if truthy e then e
                     else Str (js ''Code has been analyzed and corrections have been applied.'')),
      issues = (if isArray i then i else Arr [Str (js ''Code analysis completed'')])\<rparr>"

text \<open>
  Lines 84 to 136. \<open>Inl\<close> is an exception that leaves the \<open>try\<close> block of the handler.
\<close>

definition normalize :: "jstring \<Rightarrow> jstring \<Rightarrow> thrown + response" where
  "normalize responseText code =
     (case JSON_parse (clean_up responseText) of
        None \<Rightarrow> Inr (parsing_failed responseText code)
      | Some parsedResponse \<Rightarrow>
          (case get parsedResponse (js ''correctedCode'') of
             Inl err \<Rightarrow> Inl err
           | Inr c \<Rightarrow>
               if \<not> truthy c then Inr (missing_correctedCode code)
               else
                 (case get parsedResponse (js ''explanation'') of
                    Inl err \<Rightarrow> Inl err
                  | Inr e \<Rightarrow>
                      (case get parsedResponse (js ''issues'') of
                         Inl err \<Rightarrow> Inl err
                       | Inr i \<Rightarrow> Inr (json (Correction (validatedResponse c e i)))))))"

subsection \<open>The handler\<close>

text \<open>
  \<open>const { code, language, description } = await request.json()\<close> on the value the body
  parsed to: a TypeError on \<open>null\<close>, else the three properties.
\<close>

definition destructure :: "val \<Rightarrow> thrown + val \<times> val \<times> val" where
  "destructure b =
     (if b = Null \<or> b = Undefined
      then Inl (Error (js ''Cannot destructure property '' @ [0x27] @ js ''code'' @ [0x27]
                       @ js '' of '' @ [0x27] @ js ''(intermediate value)'' @ [0x27]
                       @ js '' as it is '' @ (if b = Null then js ''null'' else js ''undefined'')
                       @ js ''.''))
      else Inr (member b (js ''code''), member b (js ''language''), member b (js ''description'')))"

text \<open>
  The \<open>try\<close> block. Its parameters are what the handler reads: the number formatting of
  the engine (for a number interpolated into the prompt), the environment variable
  \<open>GROQ_API_KEY\<close>, the outcome of \<open>request.json()\<close> and the provider, a function
  of the prompt.
\<close>

definition try_block ::
  "(int \<Rightarrow> int \<Rightarrow> jstring) \<Rightarrow> jstring option \<Rightarrow> val outcome \<Rightarrow> (jstring \<Rightarrow> completion outcome)
     \<Rightarrow> (thrown + response) \<times> event list" where
  "try_block nts GROQ_API_KEY request create =
     (if GROQ_API_KEY = None \<or> GROQ_API_KEY = Some []
      then (Inr (json_status
                   (Failure (js ''Groq API key not configured. Please add GROQ_API_KEY to your environment variables.'') None)
                   500), [])
      else
        (case request of
           Rejects err \<Rightarrow> (Inl err, [ReadBody])
         | Resolves b \<Rightarrow>
             (case destructure b of
                Inl err \<Rightarrow> (Inl err, [ReadBody])
              | Inr (code, language, description) \<Rightarrow>
                  if \<not> truthy code
                  then (Inr (json_status (Failure (js ''Code is required'') None) 400), [ReadBody])
                  else
                    (case code of
                       Str c \<Rightarrow>
                         if trim c = []
                         then (Inr (json_status (Failure (js ''Code is required'') None) 400), [ReadBody])
                         else
                           (let p = prompt nts c language description in
                            case create p of
                              Rejects err \<Rightarrow> (Inl err, [ReadBody, CallProvider p])
                            | Resolves chatCompletion \<Rightarrow>
                                (normalize (content_or_empty chatCompletion) c,
                                 [ReadBody, CallProvider p]))
                     | _ \<Rightarrow> (Inl (Error (js ''code.trim is not a function'')), [ReadBody])))))"

definition POST ::
  "(int \<Rightarrow> int \<Rightarrow> jstring) \<Rightarrow> jstring option \<Rightarrow> val outcome \<Rightarrow> (jstring \<Rightarrow> completion outcome)
     \<Rightarrow> response \<times> event list" where
  "POST nts GROQ_API_KEY request create =
     (case try_block nts GROQ_API_KEY request create of
        (Inl err, evs) \<Rightarrow> (classify err, evs)
      | (Inr res, evs) \<Rightarrow> (res, evs))"

section \<open>Serialized results\<close>









section \<open>The parser consumes its input and never runs out of fuel\<close>

lemma string_chars_length: "string_chars s = Some (t, r) \<Longrightarrow> length r < length s"
proof (induction s arbitrary: t r rule: string_chars.induct)
  case 1
  then show ?case by simp
next
  case (2 c cs)
  then show ?case
    by (auto simp: cons_fst_def split: if_splits list.splits option.splits) fastforce+
qed

lemma token_length: "token s = Some (c, r) \<Longrightarrow> Suc (length r) \<le> length s"
proof -
  assume "token s = Some (c, r)"
  then have "skip_ws s = c # r"
    by (simp add: token_def split: list.splits)
  moreover have "length (skip_ws s) \<le> length s"
    by (simp add: skip_ws_def length_dropWhile_le)
  ultimately show ?thesis by simp
qed

lemma dropWhile_shorter: "takeWhile P s \<noteq> [] \<Longrightarrow> length (dropWhile P s) < length s"
  by (cases s) (auto simp: less_Suc_eq_le length_dropWhile_le split: if_splits)

lemma sign_part_length: "sign_part s = (neg, r) \<Longrightarrow> length r \<le> length s"
  by (auto simp: sign_part_def split: list.splits if_splits)

lemma fraction_part_length: "fraction_part s = Some (fp, r) \<Longrightarrow> length r \<le> length s"
  by (auto simp: fraction_part_def le_SucI length_dropWhile_le split: list.splits if_splits)

lemma exponent_part_length: "exponent_part s = Some (ex, r) \<Longrightarrow> length r \<le> length s"
  by (auto simp: exponent_part_def Let_def le_SucI length_dropWhile_le
      split: list.splits if_splits prod.splits
      intro: le_trans [OF length_dropWhile_le])

lemma number_length:
  assumes "number s = Some (x, r)"
  shows "length r < length s"
proof -
  obtain neg s1 where s1: "sign_part s = (neg, s1)"
    by (cases "sign_part s")
  from assms s1 obtain fp s3 ex where
    ip: "takeWhile isDigit s1 \<noteq> []"
    and fp: "fraction_part (dropWhile isDigit s1) = Some (fp, s3)"
    and ex: "exponent_part s3 = Some (ex, r)"
    by (auto simp: number_def Let_def split: if_splits option.splits)
  have "length r \<le> length s3" using ex by (rule exponent_part_length)
  also have "\<dots> \<le> length (dropWhile isDigit s1)" using fp by (rule fraction_part_length)
  also have "\<dots> < length s1" using ip by (rule dropWhile_shorter)
  also have "\<dots> \<le> length s" using s1 by (rule sign_part_length)
  finally show ?thesis .
qed

lemma member_name_length:
  assumes "member_name s = Some (k, r)"
  shows "length r < length s"
proof -
  from assms obtain c r0 r1 c1 where
    a: "token s = Some (c, r0)" and b: "string_chars r0 = Some (k, r1)"
    and c: "token r1 = Some (c1, r)"
    by (auto simp: member_name_def split: option.splits if_splits)
  from token_length [OF a] string_chars_length [OF b] token_length [OF c]
  show ?thesis by simp
qed

lemma parse_length_all:
  "(\<forall>s v r. parse_value n s = Parsed v r \<longrightarrow> length r < length s)
   \<and> (\<forall>s acc v r. parse_elements n s acc = Parsed v r \<longrightarrow> length r < length s)
   \<and> (\<forall>s acc v r. parse_members n s acc = Parsed v r \<longrightarrow> length r < length s)"
proof (induction n)
  case 0
  show ?case by simp
next
  case (Suc n)
  have V: "length r < length s" if "parse_value (Suc n) s = Parsed v r" for s v r
  proof -
    from that obtain c r0 where t: "token s = Some (c, r0)"
      by (auto split: option.splits)
    note l0 = token_length [OF t]
    show ?thesis
    proof (cases "c = 0x7B \<or> c = 0x5B")
      case True
      with that t obtain d r1 where t1: "token r0 = Some (d, r1)"
        by (auto split: option.splits)
      note l1 = token_length [OF t1]
      from True that t t1 Suc l0 l1 show ?thesis
        by (auto split: if_splits dest!: spec) 
    next
      case False
      with that t l0 show ?thesis
        by (auto split: if_splits option.splits dest: string_chars_length number_length)
    qed
  qed
  have E: "length r < length s" if "parse_elements (Suc n) s acc = Parsed v r" for s acc v r
  proof -
    from that obtain v0 r0 d r1 where p: "parse_value n s = Parsed v0 r0"
      and t: "token r0 = Some (d, r1)"
      by (auto split: parsed.splits option.splits)
    from p Suc have l0: "length r0 < length s" by blast
    note l1 = token_length [OF t]
    from that p t have "r = r1 \<or> parse_elements n r1 (acc @ [v0]) = Parsed v r"
      by (auto split: if_splits)
    then show ?thesis
    proof
      assume "r = r1" with l0 l1 show ?thesis by simp
    next
      assume "parse_elements n r1 (acc @ [v0]) = Parsed v r"
      with Suc have "length r < length r1" by blast
      with l0 l1 show ?thesis by simp
    qed
  qed
  have M: "length r < length s" if "parse_members (Suc n) s acc = Parsed v r" for s acc v r
  proof -
    from that obtain k r0 v0 r1 d r2 where m: "member_name s = Some (k, r0)"
      and p: "parse_value n r0 = Parsed v0 r1" and t: "token r1 = Some (d, r2)"
      by (auto split: parsed.splits option.splits)
    note l0 = member_name_length [OF m]
    from p Suc have l1: "length r1 < length r0" by blast
    note l2 = token_length [OF t]
    from that m p t have "r = r2 \<or> parse_members n r2 (acc @ [(k, v0)]) = Parsed v r"
      by (auto split: if_splits)
    then show ?thesis
    proof
      assume "r = r2" with l0 l1 l2 show ?thesis by simp
    next
      assume "parse_members n r2 (acc @ [(k, v0)]) = Parsed v r"
      with Suc have "length r < length r2" by blast
      with l0 l1 l2 show ?thesis by simp
    qed
  qed
  from V E M show ?case by blast
qed

lemma parse_value_length: "parse_value n s = Parsed v r \<Longrightarrow> length r < length s"
  using parse_length_all [of n] by blast

lemma parse_fuel_all:
  "(\<forall>s. 2 * length s < n \<longrightarrow> parse_value n s \<noteq> OutOfFuel)
   \<and> (\<forall>s acc. 2 * length s + 1 < n \<longrightarrow> parse_elements n s acc \<noteq> OutOfFuel)
   \<and> (\<forall>s acc. 2 * length s + 1 < n \<longrightarrow> parse_members n s acc \<noteq> OutOfFuel)"
proof (induction n)
  case 0
  show ?case by simp
next
  case (Suc n)
  have V: "parse_value (Suc n) s \<noteq> OutOfFuel" if "2 * length s < Suc n" for s
  proof
    assume o: "parse_value (Suc n) s = OutOfFuel"
    then obtain c r0 where t: "token s = Some (c, r0)"
      by (auto split: option.splits)
    note l0 = token_length [OF t]
    from o t have "parse_members n r0 [] = OutOfFuel \<or> parse_elements n r0 [] = OutOfFuel"
      by (auto split: if_splits option.splits)
    moreover from l0 that have "2 * length r0 + 1 < n" by simp
    ultimately show False using Suc by blast
  qed
  have E: "parse_elements (Suc n) s acc \<noteq> OutOfFuel" if "2 * length s + 1 < Suc n" for s acc
  proof
    assume o: "parse_elements (Suc n) s acc = OutOfFuel"
    from that Suc have nv: "parse_value n s \<noteq> OutOfFuel" by simp
    with o obtain v0 r0 d r1 where p: "parse_value n s = Parsed v0 r0"
      and t: "token r0 = Some (d, r1)"
      and o': "parse_elements n r1 (acc @ [v0]) = OutOfFuel"
      by (auto split: parsed.splits option.splits if_splits)
    from parse_value_length [OF p] token_length [OF t] that have "2 * length r1 + 1 < n"
      by simp
    with o' Suc show False by blast
  qed
  have M: "parse_members (Suc n) s acc \<noteq> OutOfFuel" if "2 * length s + 1 < Suc n" for s acc
  proof
    assume o: "parse_members (Suc n) s acc = OutOfFuel"
    then obtain k r0 where m: "member_name s = Some (k, r0)"
      by (auto split: option.splits)
    note l0 = member_name_length [OF m]
    from l0 that Suc have nv: "parse_value n r0 \<noteq> OutOfFuel" by simp
    with o m obtain v0 r1 d r2 where p: "parse_value n r0 = Parsed v0 r1"
      and t: "token r1 = Some (d, r2)"
      and o': "parse_members n r2 (acc @ [(k, v0)]) = OutOfFuel"
      by (auto split: parsed.splits option.splits if_splits)
    from l0 parse_value_length [OF p] token_length [OF t] that have "2 * length r2 + 1 < n"
      by simp
    with o' Suc show False by blast
  qed
  from V E M show ?case by blast
qed

lemma parse_value_fuel: "parse_value (2 * length s + 1) s \<noteq> OutOfFuel"
  using parse_fuel_all [of "2 * length s + 1"] by simp


text \<open>
  So \<open>None\<close> from \<open>JSON_parse\<close> is a syntax error, never a lack of fuel, and the
  result of the parser is the same with any larger fuel.
\<close>

lemma JSON_parse_None:
  "JSON_parse s = None \<Longrightarrow>
     parse_value (2 * length s + 1) s = SyntaxError
     \<or> (\<exists>v r. parse_value (2 * length s + 1) s = Parsed v r \<and> skip_ws r \<noteq> [])"
  using parse_value_fuel [of s]
  by (auto simp: JSON_parse_def split: parsed.splits if_splits)

lemma parse_more_fuel_all:
  "(\<forall>s. parse_value n s \<noteq> OutOfFuel \<longrightarrow> parse_value (Suc n) s = parse_value n s)
   \<and> (\<forall>s acc. parse_elements n s acc \<noteq> OutOfFuel
         \<longrightarrow> parse_elements (Suc n) s acc = parse_elements n s acc)
   \<and> (\<forall>s acc. parse_members n s acc \<noteq> OutOfFuel
         \<longrightarrow> parse_members (Suc n) s acc = parse_members n s acc)"
proof (induction n)
  case 0
  show ?case by simp
next
  case (Suc n)
  have V: "parse_value (Suc (Suc n)) s = parse_value (Suc n) s"
    if "parse_value (Suc n) s \<noteq> OutOfFuel" for s
  proof (cases "token s")
    case None
    then show ?thesis by simp
  next
    case (Some cr)
    obtain c r where cr: "cr = (c, r)" by (cases cr)
    show ?thesis
    proof (cases "token r")
      case None
      with Some cr show ?thesis by simp
    next
      case t: (Some dr)
      obtain d r' where dr: "dr = (d, r')" by (cases dr)
      from that Some cr t dr
      have "c = 0x7B \<Longrightarrow> d \<noteq> 0x7D \<Longrightarrow> parse_members n r [] \<noteq> OutOfFuel"
        and "c \<noteq> 0x7B \<Longrightarrow> c = 0x5B \<Longrightarrow> d \<noteq> 0x5D \<Longrightarrow> parse_elements n r [] \<noteq> OutOfFuel"
        by (auto split: if_splits)
      with Suc have "c = 0x7B \<Longrightarrow> d \<noteq> 0x7D \<Longrightarrow> parse_members (Suc n) r [] = parse_members n r []"
        and "c \<noteq> 0x7B \<Longrightarrow> c = 0x5B \<Longrightarrow> d \<noteq> 0x5D \<Longrightarrow> parse_elements (Suc n) r [] = parse_elements n r []"
        by blast+
      with Some cr t dr show ?thesis
        by (simp del: parse_elements.simps parse_members.simps)
    qed
  qed
  have E: "parse_elements (Suc (Suc n)) s acc = parse_elements (Suc n) s acc"
    if "parse_elements (Suc n) s acc \<noteq> OutOfFuel" for s acc
  proof -
    from that have nv: "parse_value n s \<noteq> OutOfFuel"
      by (auto split: parsed.splits)
    with Suc have v: "parse_value (Suc n) s = parse_value n s" by blast
    show ?thesis
    proof (cases "parse_value n s")
      case (Parsed v0 r0)
      show ?thesis
      proof (cases "token r0")
        case None
        with Parsed v show ?thesis by (simp del: parse_value.simps)
      next
        case (Some dr)
        obtain d r1 where dr: "dr = (d, r1)" by (cases dr)
        from that Parsed Some dr
        have "d = 0x2C \<Longrightarrow> parse_elements n r1 (acc @ [v0]) \<noteq> OutOfFuel"
          by (auto split: if_splits)
        with Suc have "d = 0x2C \<Longrightarrow> parse_elements (Suc n) r1 (acc @ [v0]) = parse_elements n r1 (acc @ [v0])"
          by blast
        with Parsed v Some dr show ?thesis
          by (subst parse_elements.simps(2), subst (2) parse_elements.simps(2))
            (simp del: parse_value.simps parse_elements.simps)
      qed
    next
      case SyntaxError
      with v show ?thesis by (simp del: parse_value.simps)
    next
      case OutOfFuel
      with nv show ?thesis by simp
    qed
  qed
  have M: "parse_members (Suc (Suc n)) s acc = parse_members (Suc n) s acc"
    if "parse_members (Suc n) s acc \<noteq> OutOfFuel" for s acc
  proof (cases "member_name s")
    case None
    then show ?thesis by simp
  next
    case (Some kr)
    obtain k r where kr: "kr = (k, r)" by (cases kr)
    from that Some kr have nv: "parse_value n r \<noteq> OutOfFuel"
      by (auto split: parsed.splits)
    with Suc have v: "parse_value (Suc n) r = parse_value n r" by blast
    show ?thesis
    proof (cases "parse_value n r")
      case (Parsed v0 r0)
      show ?thesis
      proof (cases "token r0")
        case None
        with Some kr Parsed v show ?thesis by (simp del: parse_value.simps)
      next
        case t: (Some dr)
        obtain d r1 where dr: "dr = (d, r1)" by (cases dr)
        from that Some kr Parsed t dr
        have "d = 0x2C \<Longrightarrow> parse_members n r1 (acc @ [(k, v0)]) \<noteq> OutOfFuel"
          by (auto split: if_splits)
        with Suc have "d = 0x2C \<Longrightarrow>
            parse_members (Suc n) r1 (acc @ [(k, v0)]) = parse_members n r1 (acc @ [(k, v0)])"
          by blast
        with Some kr Parsed v t dr show ?thesis
          by (subst parse_members.simps(2), subst (2) parse_members.simps(2))
            (simp del: parse_value.simps parse_members.simps)
      qed
    next
      case SyntaxError
      with Some kr v show ?thesis by (simp del: parse_value.simps)
    next
      case OutOfFuel
      with nv show ?thesis by simp
    qed
  qed
  from V E M show ?case by blast
qed

lemma parse_value_more_fuel:
  "parse_value n s \<noteq> OutOfFuel \<Longrightarrow> parse_value (n + k) s = parse_value n s"
proof (induction k)
  case 0
  show ?case by simp
next
  case (Suc k)
  then have "parse_value (n + k) s \<noteq> OutOfFuel" by simp
  with parse_more_fuel_all [of "n + k"] have "parse_value (Suc (n + k)) s = parse_value (n + k) s"
    by blast
  with Suc show ?case by simp
qed


section \<open>The model on examples\<close>

text \<open>
  Values that ECMAScript prescribes: the last of two members with one key is the one
  read, escapes are decoded, a trailing comma, a leading zero, a bare key, a raw line
  feed in a string and text after the value are syntax errors; the double nearest to
  \<open>1e-400\<close> is zero; the clean-up keeps what stands between the first opening and
  the last closing brace.
\<close>

lemma JSON_parse_examples:
  \<open>JSON_parse (js '' {"a": [1, -2.50e3, true, null], "a": "b"} '') =
     Some (Obj [(js ''a'', Arr [Num 1 0, Num (- 250) 1, Bool True, Null]), (js ''a'', Str (js ''b''))])\<close>
  \<open>JSON_parse (js ''"a'' @ [0x5C] @ js ''n'' @ [0x5C] @ js ''u00e9"'') = Some (Str [0x61, 0x0A, 0xE9])\<close>
  \<open>JSON_parse (js ''[1,]'') = None\<close>
  \<open>JSON_parse (js ''{"a":1,}'') = None\<close>
  \<open>JSON_parse (js ''01'') = None\<close>
  \<open>JSON_parse (js ''1.'') = None\<close>
  \<open>JSON_parse (js ''{a:1}'') = None\<close>
  \<open>JSON_parse (js ''"a'' @ [0x0A] @ js ''b"'') = None\<close>
  \<open>JSON_parse (js ''{} x'') = None\<close>
  \<open>JSON_parse [] = None\<close>
  by code_simp+

lemma member_examples:
  \<open>member (Obj [(js ''a'', Num 1 0), (js ''a'', Num 2 0)]) (js ''a'') = Num 2 0\<close>
  \<open>member (Obj [(js ''a'', Num 1 0)]) (js ''b'') = Undefined\<close>
  \<open>member (Arr [Num 1 0]) (js ''a'') = Undefined\<close>
  by code_simp+

lemma truthy_examples:
  "\<not> truthy (Num 0 5)" "truthy (Num 1 (- 300))" "\<not> truthy (Num 1 (- 400))" "truthy (Arr [])"
  by (simp_all add: rounds_to_zero_def)

lemma clean_up_examples:
  \<open>clean_up (js ''  Here it is: {"a": {"b": 1}} (done) '') = js ''{"a": {"b": 1}}''\<close>
  \<open>clean_up (js ''```json'' @ [0x0A] @ js ''[1, 2]'' @ [0x0A] @ js ''```'' @ [0x0A]) = js ''[1, 2]''\<close>
  \<open>clean_up (js ''```'' @ js ''text'') = js ''text''\<close>
  \<open>clean_up (js ''} {'') = js ''} {''\<close>
  by code_simp+


section \<open>What JSON.parse returns\<close>




section \<open>Serialized results are read back\<close>

subsection \<open>Quoted strings are read back\<close>















subsection \<open>A serialized result is read back\<close>





















section \<open>Cleaning up a fenced object\<close>









section \<open>The steps of the response normalizer\<close>




lemma normalize_null:
  "JSON_parse (clean_up reply) = Some Null \<Longrightarrow>
     normalize reply code = Inl (cannot_read Null (js ''correctedCode''))"
  by (simp add: normalize_def get_def)

section \<open>The steps of the request handler\<close>

lemma trim_Nil [simp]: "trim [] = []"
  by (simp add: trim_def)






section \<open>The normalized result\<close>

subsection \<open>Its three fields\<close>




text \<open>
  The reply \<open>null\<close> is what the hypothesis leaves out: it parses, reading
  \<open>correctedCode\<close> of it throws a TypeError, and the catch block answers 500.
\<close>

lemma null_reply_answered_500:
  "status (fst (POST (\<lambda>m e. []) (Some (js ''key''))
                  (Resolves (Obj [(js ''code'', Str (js ''x = 1'')), (js ''language'', Str (js ''python''))]))
                  (\<lambda>p. Resolves [Some (js ''null'')]))) = 500"
  by code_simp

subsection \<open>Fallback mode\<close>



subsection \<open>Partial-failure mode\<close>



subsection \<open>Well-formed replies\<close>




subsection \<open>Defaults\<close>




subsection \<open>Markdown fences\<close>



section \<open>The request handler\<close>

subsection \<open>The credential\<close>

text \<open>
  C9. When \<open>GROQ_API_KEY\<close> is absent from the environment (or empty), the handler
  answers 500 with the configuration message, whatever the request and the provider
  are, and nothing has happened before: the body has not been read and the provider
  has not been called.
\<close>

theorem credential_checked_first:
  assumes "GROQ_API_KEY = None \<or> GROQ_API_KEY = Some []"
  shows "POST nts GROQ_API_KEY request create =
     (\<lparr>status = 500,
       body = Failure (js ''Groq API key not configured. Please add GROQ_API_KEY to your environment variables.'') None\<rparr>,
      [])"
  using assms by (auto simp: POST_def try_block_def json_status_def)

theorem credential_checked_first_witness:
  "POST (\<lambda>m e. []) None (Resolves (Obj [(js ''code'', Str (js ''x = 1''))]))
      (\<lambda>p. Resolves [Some (js ''{}'')]) =
     (\<lparr>status = 500,
       body = Failure (js ''Groq API key not configured. Please add GROQ_API_KEY to your environment variables.'') None\<rparr>,
      [])"
  using credential_checked_first [of None] by simp

subsection \<open>Blank code\<close>

text \<open>
  C5, as stated, fails when the credential is missing: the credential is checked
  before the body is read, and a request with an empty \<open>code\<close> is then answered 500,
  not 400.
\<close>

theorem blank_code_without_credential:
  "POST (\<lambda>m e. []) None (Resolves (Obj [(js ''code'', Str [])])) (\<lambda>p. Resolves []) =
     (\<lparr>status = 500,
       body = Failure (js ''Groq API key not configured. Please add GROQ_API_KEY to your environment variables.'') None\<rparr>,
      [])"
  by (simp add: POST_def try_block_def json_status_def)

text \<open>
  C5, amended. With the credential configured, a request whose body is not \<open>null\<close> and
  whose \<open>code\<close> is missing or falsy, or a string that is empty or white space only, is
  answered 400 with the message \<open>Code is required\<close>; the body has been read and the
  provider has not been called.
\<close>

theorem blank_code_rejected:
  assumes "k \<noteq> []" and "b \<noteq> Null" and "b \<noteq> Undefined"
    and "\<not> truthy (member b (js ''code''))
         \<or> (\<exists>s. member b (js ''code'') = Str s \<and> trim s = [])"
  shows "POST nts (Some k) (Resolves b) create =
     (\<lparr>status = 400, body = Failure (js ''Code is required'') None\<rparr>, [ReadBody])"
  using assms by (auto simp: POST_def try_block_def destructure_def json_status_def)

theorem blank_code_rejected_witness:
  "POST (\<lambda>m e. []) (Some (js ''key''))
      (Resolves (Obj [(js ''code'', Str (js ''   '')), (js ''language'', Str (js ''python''))]))
      (\<lambda>p. Resolves [Some (js ''{}'')]) =
     (\<lparr>status = 400, body = Failure (js ''Code is required'') None\<rparr>, [ReadBody])"
proof -
  have "js ''key'' \<noteq> []" by (simp add: js_def)
  moreover have "\<exists>s. member (Obj [(js ''code'', Str (js ''   '')), (js ''language'', Str (js ''python''))])
                        (js ''code'') = Str s \<and> trim s = []"
    by (simp add: member_def js_def trim_def isWhiteSpace_def)
  ultimately show ?thesis
    using blank_code_rejected
      [of "js ''key''" "Obj [(js ''code'', Str (js ''   '')), (js ''language'', Str (js ''python''))]"]
    by simp
qed

subsection \<open>Provider failures\<close>




subsection \<open>A body that is not JSON\<close>

text \<open>
  Whatever reading the body throws, the handler has not validated the code and has not
  called the provider, and its answer is one of the four statuses of the catch block,
  never 400.
\<close>

lemma body_error_status:
  assumes "k \<noteq> []"
  shows "POST nts (Some k) (Rejects err) create = (classify err, [ReadBody])
     \<and> status (classify err) \<in> {401, 429, 504, 500}"
  using assms
  by (simp add: POST_def try_block_def classify_def json_status_def split: thrown.splits)

text \<open>
  C10, as stated, fails when the message of the error that \<open>request.json()\<close> throws
  contains one of the substrings that the catch block tests before \<open>JSON\<close> and
  \<open>parse\<close>. V8 quotes the text of the body in the message, so the body
  \<open>quota exceeded\<close> is answered 429.
\<close>

theorem body_error_quoting_quota:
  \<open>POST (\<lambda>m e. []) (Some (js ''key''))
      (Rejects (Error (js ''Unexpected token 'q', "quota exceeded" is not valid JSON'')))
      (\<lambda>p. Resolves []) =
     (\<lparr>status = 429,
       body = Failure (js ''Groq API rate limit exceeded. Please try again in a moment.'') None\<rparr>,
      [ReadBody])\<close>
  by code_simp

text \<open>
  C10, amended. With the credential configured, when reading the body throws an Error
  whose message contains \<open>JSON\<close> or \<open>parse\<close> and none of the substrings tested before
  them, the handler answers 500 with the message of the provider-format branch; the
  body has been read, the code has not been validated and the provider has not been
  called.
\<close>

theorem body_error_classified:
  assumes "k \<noteq> []"
    and "str_includes msg (js ''JSON'') \<or> str_includes msg (js ''parse'')"
    and "\<not> str_includes msg (js ''API key'')" and "\<not> str_includes msg (js ''authentication'')"
    and "\<not> str_includes msg (js ''unauthorized'')" and "\<not> str_includes msg (js ''rate limit'')"
    and "\<not> str_includes msg (js ''quota'')" and "\<not> str_includes msg (js ''limit exceeded'')"
    and "\<not> str_includes msg (js ''timeout'')" and "\<not> str_includes msg (js ''network'')"
  shows "POST nts (Some k) (Rejects (Error msg)) create =
     (\<lparr>status = 500,
       body = Failure (js ''Groq returned an invalid response format. Please try again.'') None\<rparr>,
      [ReadBody])"
  using assms by (simp add: POST_def try_block_def classify_def json_status_def)

theorem body_error_classified_witness:
  "POST (\<lambda>m e. []) (Some (js ''key'')) (Rejects (Error (js ''Unexpected end of JSON input'')))
      (\<lambda>p. Resolves []) =
     (\<lparr>status = 500,
       body = Failure (js ''Groq returned an invalid response format. Please try again.'') None\<rparr>,
      [ReadBody])"
proof -
  have k: "js ''key'' \<noteq> []" by (simp add: js_def)
  have j: "str_includes (js ''Unexpected end of JSON input'') (js ''JSON'')
           \<or> str_includes (js ''Unexpected end of JSON input'') (js ''parse'')"
    by code_simp
  have m: "\<not> str_includes (js ''Unexpected end of JSON input'') (js ''API key'')"
      "\<not> str_includes (js ''Unexpected end of JSON input'') (js ''authentication'')"
      "\<not> str_includes (js ''Unexpected end of JSON input'') (js ''unauthorized'')"
      "\<not> str_includes (js ''Unexpected end of JSON input'') (js ''rate limit'')"
      "\<not> str_includes (js ''Unexpected end of JSON input'') (js ''quota'')"
      "\<not> str_includes (js ''Unexpected end of JSON input'') (js ''limit exceeded'')"
      "\<not> str_includes (js ''Unexpected end of JSON input'') (js ''timeout'')"
      "\<not> str_includes (js ''Unexpected end of JSON input'') (js ''network'')"
    by code_simp+
  show ?thesis
    using body_error_classified [OF k j m] .
qed



end
